theory Spec2Isabelle
  imports Complex_Main "HOL-Library.Char_ord" "HOL-Library.List_Lexorder"
    "HOL-Library.Product_Lexorder"
begin

section \<open>Errors\<close>

text \<open>
  Every exception the modelled code can raise is a value. The four assertions of
  \<open>check_holdings\<close> are kept apart, since the source gives each its own message.
\<close>

datatype error =
    ExtraColumns
  | RequiredColumnsMissing
  | NoIdsColumns
  | InvalidAsstype
  | InvalidDash string
  | ZeroDivisionError
  | TypeError
  | AttributeError
  | MissingColumn string
  | ColumnsDiffer
  | IndexError
  | FileNotFoundError
  | NotADirectoryError
  | ParseError
  | SystemExit string
  | UnboundLocalError

section \<open>database.py: the dated snapshot store\<close>

subsection \<open>The file system\<close>

text \<open>
  The store only lists directories and tests paths for existence. A file system maps a
  path to what is there: nothing, a file, or a directory with the names \<open>os.listdir\<close>
  returns, in the order in which the operating system returns them (which Python
  documents as arbitrary).
\<close>

datatype node = File | Dir "string list"

type_synonym filesystem = "string \<Rightarrow> node option"

definition listdir :: "filesystem \<Rightarrow> string \<Rightarrow> error + string list" where
  "listdir fs p =
     (case fs p of
        None \<Rightarrow> Inl FileNotFoundError
      | Some File \<Rightarrow> Inl NotADirectoryError
      | Some (Dir names) \<Rightarrow> Inr names)"


text \<open>\<open>posixpath.join\<close> of two components.\<close>

definition path_join :: "string \<Rightarrow> string \<Rightarrow> string" where
  "path_join a b =
     (if take 1 b = ''/'' then b
      else if a = [] \<or> last a = CHR ''/'' then a @ b
      else a @ ''/'' @ b)"

subsection \<open>Dated directories\<close>

record database =
  directory :: string






subsection \<open>The latest snapshot\<close>

text \<open>
  The loop \<open>for _ in range(3)\<close> of \<open>getlatest\<close>: \<open>Inr None\<close> is the early
  \<open>return None\<close>, \<open>Inr (Some curdir)\<close> the directory reached when the loop ends.
\<close>

fun descend :: "filesystem \<Rightarrow> nat \<Rightarrow> string \<Rightarrow> error + string option" where
  "descend fs 0 curdir = Inr (Some curdir)"
| "descend fs (Suc n) curdir =
     (case listdir fs curdir of
        Inl e \<Rightarrow> Inl e
      | Inr filenames \<Rightarrow>
          if filenames = [] then Inr None
          else descend fs n (path_join curdir (last filenames)))"

text \<open>The body of the \<open>try\<close> block.\<close>

definition getlatest_try :: "filesystem \<Rightarrow> database \<Rightarrow> string \<Rightarrow> error + string option" where
  "getlatest_try fs db key =
     (case descend fs 3 (path_join (directory db) key) of
        Inl e \<Rightarrow> Inl e
      | Inr None \<Rightarrow> Inr None
      | Inr (Some curdir) \<Rightarrow>
          (case listdir fs curdir of
             Inl e \<Rightarrow> Inl e
           | Inr filenames \<Rightarrow>
               Inr (if filenames \<noteq> [] then Some (path_join curdir (last (sort filenames)))
                    else None)))"

text \<open>\<open>except FileNotFoundError: pass\<close>, then \<open>return None\<close>.\<close>

definition getlatest :: "filesystem \<Rightarrow> database \<Rightarrow> string \<Rightarrow> error + string option" where
  "getlatest fs db key =
     (case getlatest_try fs db key of
        Inl FileNotFoundError \<Rightarrow> Inr None
      | r \<Rightarrow> r)"

subsection \<open>The store as the specification words it\<close>

text \<open>
  \<open>resolve_latest\<close> after the specification: three levels down from \<open>root/key\<close>, at
  each level the lexicographically last child, then the lexicographically last file of
  the day directory; absent when a level is missing or empty.
\<close>

fun spec_descend :: "filesystem \<Rightarrow> nat \<Rightarrow> string \<Rightarrow> string option" where
  "spec_descend fs 0 curdir = Some curdir"
| "spec_descend fs (Suc n) curdir =
     (case fs curdir of
        Some (Dir names) \<Rightarrow>
          if names = [] then None
          else spec_descend fs n (path_join curdir (last (sort names)))
      | _ \<Rightarrow> None)"

definition spec_resolve_latest :: "filesystem \<Rightarrow> database \<Rightarrow> string \<Rightarrow> string option" where
  "spec_resolve_latest fs db key =
     (case spec_descend fs 3 (path_join (directory db) key) of
        None \<Rightarrow> None
      | Some curdir \<Rightarrow>
          (case fs curdir of
             Some (Dir names) \<Rightarrow>
               if names = [] then None else Some (path_join curdir (last (sort names)))
           | _ \<Rightarrow> None))"

section \<open>table.py: the table abstraction\<close>

text \<open>
  The module \<open>baskets/table.py\<close> with the class \<open>Table\<close> is not among the sources.
  What the sources use of it is modelled in this section from the specification, which
  describes it as an ordered-rows, named-columns container with column projection,
  per-column transform, column addition by a derivation rule, column removal, row
  filtering and concatenation.
\<close>

text \<open>
  Modelled from the spec: the values a table holds. The sources put strings and floats
  in tables (\<open>Table(['fraction', 'asstype', 'ticker'], ..., [[1.0, 'Equity',
  row.ticker]])\<close>). A number is a real number here: Python's \<open>int\<close> and \<open>float\<close> are
  not told apart, and the rounding, overflow and underflow of floats are outside this
  model.
\<close>

datatype cell = Str string | Num real

text \<open>
  Modelled from the spec: a table, as the constructor \<open>Table(columns, types, rows)\<close>
  receives it: the column names in order and the rows, each the list of its cells. The
  column types are not kept.
\<close>

record table =
  columns :: "string list"
  rows :: "cell list list"

text \<open>Evaluating a comprehension whose elements may raise: the first exception ends it.\<close>

fun sequence :: "(error + 'a) list \<Rightarrow> error + 'a list" where
  "sequence [] = Inr []"
| "sequence (x # xs) =
     (case x of
        Inl e \<Rightarrow> Inl e
      | Inr v \<Rightarrow> (case sequence xs of Inl e \<Rightarrow> Inl e | Inr vs \<Rightarrow> Inr (v # vs)))"

text \<open>
  Modelled from the spec: the position of a column, the first one of that name, and the
  cell of a row in a column.
\<close>

fun index_of :: "string list \<Rightarrow> string \<Rightarrow> nat option" where
  "index_of [] c = None"
| "index_of (x # xs) c = (if x = c then Some 0 else map_option Suc (index_of xs c))"

definition cell_at :: "string list \<Rightarrow> cell list \<Rightarrow> string \<Rightarrow> cell option" where
  "cell_at cols r c =
     (case index_of cols c of
        None \<Rightarrow> None
      | Some i \<Rightarrow> if i < length r then Some (r ! i) else None)"

text \<open>
  Modelled from the spec: a table is well formed when every row has one cell for each
  column, which the named tuples of \<open>Table\<close> require.
\<close>

definition wf_table :: "table \<Rightarrow> bool" where
  "wf_table tbl = list_all (\<lambda>r. length r = length (columns tbl)) (rows tbl)"

text \<open>
  Modelled from the spec: the class \<open>Table\<close> of \<open>baskets/table.py\<close> is not among the
  sources. Iterating a table yields its rows as named tuples; \<open>attr\<close> is the access
  \<open>row.c\<close> to the field of column \<open>c\<close>.
\<close>

type_synonym named_row = "string list \<times> cell list"

definition named :: "table \<Rightarrow> cell list \<Rightarrow> named_row" where
  "named tbl r = (columns tbl, r)"

definition attr :: "named_row \<Rightarrow> string \<Rightarrow> error + cell" where
  "attr row c =
     (case cell_at (fst row) (snd row) c of
        None \<Rightarrow> Inl AttributeError
      | Some v \<Rightarrow> Inr v)"

text \<open>
  Modelled from the spec: \<open>Table.values(column)\<close>, the cells of one column in row order.
  The source calls it on columns it has found in \<open>holdings.columns\<close>.
\<close>

definition tbl_values :: "table \<Rightarrow> string \<Rightarrow> cell list" where
  "tbl_values tbl c =
     concat (map (\<lambda>r. case cell_at (columns tbl) r c of None \<Rightarrow> [] | Some v \<Rightarrow> [v]) (rows tbl))"


text \<open>
  Modelled from the spec: \<open>Table.create(column, fn)\<close>, column addition with a derivation
  rule. The new column comes last; its cell in a row is what the rule gives for that
  row.
\<close>

definition create :: "table \<Rightarrow> string \<Rightarrow> (named_row \<Rightarrow> error + cell) \<Rightarrow> error + table" where
  "create tbl c f =
     (case sequence
             (map (\<lambda>r. case f (named tbl r) of Inl e \<Rightarrow> Inl e | Inr v \<Rightarrow> Inr (r @ [v]))
                  (rows tbl)) of
        Inl e \<Rightarrow> Inl e
      | Inr rs \<Rightarrow> Inr \<lparr>columns = columns tbl @ [c], rows = rs\<rparr>)"

text \<open>
  Modelled from the spec: \<open>Table.select(columns)\<close>, the projection to the named columns
  in the order given. A column the table does not have is an error.
\<close>

definition select_row :: "string list \<Rightarrow> cell list \<Rightarrow> string list \<Rightarrow> error + cell list" where
  "select_row cols r cs =
     sequence (map (\<lambda>c. case cell_at cols r c of
                            None \<Rightarrow> Inl (MissingColumn c)
                          | Some v \<Rightarrow> Inr v) cs)"

definition select :: "table \<Rightarrow> string list \<Rightarrow> error + table" where
  "select tbl cs =
     (case List.find (\<lambda>c. c \<notin> set (columns tbl)) cs of
        Some c \<Rightarrow> Inl (MissingColumn c)
      | None \<Rightarrow>
          (case sequence (map (\<lambda>r. select_row (columns tbl) r cs) (rows tbl)) of
             Inl e \<Rightarrow> Inl e
           | Inr rs \<Rightarrow> Inr \<lparr>columns = cs, rows = rs\<rparr>))"

text \<open>Modelled from the spec: \<open>Table.delete(columns)\<close>, column removal.\<close>

definition delete_row :: "string list \<Rightarrow> cell list \<Rightarrow> string list \<Rightarrow> cell list" where
  "delete_row cols r cs = map snd (filter (\<lambda>nv. fst nv \<notin> set cs) (zip cols r))"

definition delete :: "table \<Rightarrow> string list \<Rightarrow> table" where
  "delete tbl cs =
     \<lparr>columns = filter (\<lambda>c. c \<notin> set cs) (columns tbl),
      rows = map (\<lambda>r. delete_row (columns tbl) r cs) (rows tbl)\<rparr>"

text \<open>
  Modelled from the spec: \<open>table.concat(*tables)\<close>, the concatenation of same-shaped
  tables, rows in argument order. The specification is silent on an empty argument
  list and on tables of different shapes; both are errors here.
\<close>

definition concat_tables :: "table list \<Rightarrow> error + table" where
  "concat_tables ts =
     (case ts of
        [] \<Rightarrow> Inl IndexError
      | t # _ \<Rightarrow>
          if list_all (\<lambda>u. columns u = columns t) ts
          then Inr \<lparr>columns = columns t, rows = concat (map rows ts)\<rparr>
          else Inl ColumnsDiffer)"

text \<open>Modelled from the spec: \<open>Table.filter(fn)\<close>, row filtering by a predicate on rows.\<close>

definition tbl_filter :: "table \<Rightarrow> (named_row \<Rightarrow> error + bool) \<Rightarrow> error + table" where
  "tbl_filter tbl f =
     (case sequence
             (map (\<lambda>r. case f (named tbl r) of Inl e \<Rightarrow> Inl e | Inr b \<Rightarrow> Inr (r, b)) (rows tbl)) of
        Inl e \<Rightarrow> Inl e
      | Inr rbs \<Rightarrow> Inr (tbl\<lparr>rows := map fst (filter snd rbs)\<rparr>))"

text \<open>
  Modelled from the spec: \<open>Table.array(column)\<close>, a numeric column as an array of
  numbers.
\<close>

definition number :: "cell \<Rightarrow> error + real" where
  "number c = (case c of Num x \<Rightarrow> Inr x | Str _ \<Rightarrow> Inl TypeError)"

definition tbl_array :: "table \<Rightarrow> string \<Rightarrow> error + real list" where
  "tbl_array tbl c =
     (case index_of (columns tbl) c of
        None \<Rightarrow> Inl (MissingColumn c)
      | Some _ \<Rightarrow> sequence (map number (tbl_values tbl c)))"

text \<open>Modelled from the spec: \<open>Table.head(n)\<close>, the first \<open>n\<close> rows.\<close>

definition tbl_head :: "table \<Rightarrow> nat \<Rightarrow> table" where
  "tbl_head tbl n = tbl\<lparr>rows := take n (rows tbl)\<rparr>"

section \<open>Python arithmetic on cells\<close>




text \<open>The product of a cell with a float: a string times a float is a \<open>TypeError\<close>.\<close>

definition py_mul :: "cell \<Rightarrow> real \<Rightarrow> error + cell" where
  "py_mul c a = (case c of Num x \<Rightarrow> Inr (Num (x * a)) | Str _ \<Rightarrow> Inl TypeError)"

text \<open>
  \<open>xs[i]\<close> for a cell \<open>i\<close>: an integer counts from the end when negative; anything that
  is not an integer is a \<open>TypeError\<close>.
\<close>

definition py_index :: "'a list \<Rightarrow> cell \<Rightarrow> error + 'a" where
  "py_index xs c =
     (case c of
        Str _ \<Rightarrow> Inl TypeError
      | Num g \<Rightarrow>
          if g \<noteq> of_int \<lfloor>g\<rfloor> then Inl TypeError
          else (let n = int (length xs); i = \<lfloor>g\<rfloor>; j = (if i < 0 then n + i else i)
                in if 0 \<le> j \<and> j < n then Inr (xs ! nat j) else Inl IndexError))"

fun cumsum_from :: "real \<Rightarrow> real list \<Rightarrow> real list" where
  "cumsum_from acc [] = []"
| "cumsum_from acc (x # xs) = (acc + x) # cumsum_from (acc + x) xs"

section \<open>Logging, output and the run monad\<close>

datatype level = ERROR | INFO

datatype message =
    TotalWeightInvalid real
  | MissingIssuer string
  | MissingFile string
  | ParsingFile string string
  | ParserNotImplemented string
  | TotalFull real
  | TotalAnnotated real
  | Total real

datatype event =
    Log level message
  | WriteCsv string table
  | Print table

text \<open>
  A computation that logs and may raise: the events emitted so far, in order, and either
  the exception that ended it or its value.
\<close>

type_synonym 'a run = "event list \<times> (error + 'a)"

definition ret :: "'a \<Rightarrow> 'a run" where
  "ret v = ([], Inr v)"

definition raise :: "error \<Rightarrow> 'a run" where
  "raise e = ([], Inl e)"

definition emit :: "event \<Rightarrow> unit run" where
  "emit ev = ([ev], Inr ())"

definition lift :: "error + 'a \<Rightarrow> 'a run" where
  "lift r = ([], r)"

definition bind :: "'a run \<Rightarrow> ('a \<Rightarrow> 'b run) \<Rightarrow> 'b run" where
  "bind m f =
     (case snd m of
        Inl e \<Rightarrow> (fst m, Inl e)
      | Inr v \<Rightarrow> (fst m @ fst (f v), snd (f v)))"

section \<open>portfolio.py: holdings tables\<close>

definition ASSTYPES :: "cell set" where
  "ASSTYPES = {Str ''Equity'', Str ''FixedIncome'', Str ''ShortTerm''}"

definition IDCOLUMNS :: "string list" where
  "IDCOLUMNS = [''name'', ''ticker'', ''sedol'', ''isin'', ''cusip'']"

definition COLUMNS :: "string list" where
  "COLUMNS = [''etf'', ''account'', ''fraction'', ''asstype''] @ IDCOLUMNS"



text \<open>The loop over \<open>IDCOLUMNS\<close> that ends \<open>check_holdings\<close>.\<close>

fun check_dash :: "string list \<Rightarrow> table \<Rightarrow> error + unit" where
  "check_dash [] holdings = Inr ()"
| "check_dash (column # cs) holdings =
     (if column \<notin> set (columns holdings) then check_dash cs holdings
      else if Str ''-'' \<in> set (tbl_values holdings column) then Inl (InvalidDash column)
      else check_dash cs holdings)"

definition check_holdings :: "table \<Rightarrow> error + unit" where
  "check_holdings holdings =
     (let actual = set (columns holdings);
          allowed = {''asstype'', ''fraction''} \<union> set IDCOLUMNS;
          other = actual - allowed;
          required = {''asstype'', ''fraction''}
      in if other \<noteq> {} then Inl ExtraColumns
         else if \<not> required \<subseteq> actual then Inl RequiredColumnsMissing
         else if set IDCOLUMNS \<inter> actual = {} then Inl NoIdsColumns
         else if \<not> list_all (\<lambda>cls. cls \<in> ASSTYPES) (tbl_values holdings ''asstype'')
           then Inl InvalidAsstype
         else check_dash IDCOLUMNS holdings)"

text \<open>The loop of \<open>add_missing_columns\<close> over the identifier columns still to visit.\<close>

fun add_missing_loop :: "string list \<Rightarrow> table \<Rightarrow> error + table" where
  "add_missing_loop [] tbl = Inr tbl"
| "add_missing_loop (column # cs) tbl =
     (if column \<notin> set (columns tbl)
      then (case create tbl column (\<lambda>_. Inr (Str [])) of
              Inl e \<Rightarrow> Inl e
            | Inr tbl' \<Rightarrow> add_missing_loop cs tbl')
      else add_missing_loop cs tbl)"

definition add_missing_columns :: "table \<Rightarrow> error + table" where
  "add_missing_columns tbl = add_missing_loop IDCOLUMNS tbl"

subsection \<open>Validation as the specification words it\<close>

text \<open>
  \<open>validate\<close> after the specification fails exactly when a required column is absent, no
  identifier column is present, an asset class is outside the three known ones, or
  \<open>"-"\<close> appears in an identifier column.
\<close>

definition spec_validate_fails :: "table \<Rightarrow> bool" where
  "spec_validate_fails T =
     (''asstype'' \<notin> set (columns T) \<or> ''fraction'' \<notin> set (columns T)
      \<or> list_all (\<lambda>c. c \<notin> set (columns T)) IDCOLUMNS
      \<or> list_ex (\<lambda>v. v \<notin> ASSTYPES) (tbl_values T ''asstype'')
      \<or> list_ex (\<lambda>c. c \<in> set (columns T) \<and> Str ''-'' \<in> set (tbl_values T c)) IDCOLUMNS)"

section \<open>portfolio.py: the pipeline\<close>

record position =
  issuer :: string
  ticker :: string
  account :: string
  price :: real
  quantity :: real

text \<open>The parsed command line.\<close>

record args =
  portfolio :: string
  dbdir :: string
  ignore_missing_issuer :: bool
  ignore_options :: bool
  ignore_shorts :: bool
  threshold :: real
  full_table :: "string option"
  agg_table :: "string option"
  debug_output :: "string option"

text \<open>
  What \<open>parse_args\<close> gives for a command line that names the portfolio and nothing
  else. The default of \<open>--dbdir\<close> is \<open>path.join(os.environ['HOME'], '.baskets/db')\<close>.
\<close>

definition default_args :: "string \<Rightarrow> string \<Rightarrow> args" where
  "default_args home file =
     \<lparr>portfolio = file, dbdir = path_join home ''.baskets/db'',
      ignore_missing_issuer = False, ignore_options = False, ignore_shorts = False,
      threshold = 0, full_table = None, agg_table = None, debug_output = None\<rparr>"

text \<open>
  An issuer module: \<open>hasattr(downloader, 'parse')\<close> is whether it has a parser, which
  maps a file name to a holdings table or raises.
\<close>

datatype downloader = Downloader "(string \<Rightarrow> error + table) option"

text \<open>
  The collaborators of the pipeline that are not among the sources, and the file
  system: the issuer registry \<open>issuers.get\<close>, the reader
  \<open>beansupport.read_portfolio\<close> and the grouping \<open>graph.group\<close>, which returns the
  aggregated and the annotated table.
\<close>

record env =
  files :: filesystem
  issuers_get :: "string \<Rightarrow> downloader option"
  read_portfolio :: "string \<Rightarrow> bool \<Rightarrow> error + position list"
  graph_group :: "table \<Rightarrow> string option \<Rightarrow> error + (table \<times> table)"

text \<open>
  Lines 110 to 136 of \<open>main\<close>: the holdings of one position. \<open>None\<close> is a
  \<open>continue\<close>.
\<close>

definition position_holdings :: "env \<Rightarrow> args \<Rightarrow> database \<Rightarrow> position \<Rightarrow> table option run" where
  "position_holdings e a db row =
     (if issuer row = [] then
        ret (Some \<lparr>columns = [''fraction'', ''asstype'', ''ticker''],
                   rows = [[Num 1.0, Str ''Equity'', Str (ticker row)]]\<rparr>)
      else
        (case issuers_get e (issuer row) of
           None \<Rightarrow>
             if ignore_missing_issuer a
             then bind (emit (Log ERROR (MissingIssuer (issuer row)))) (\<lambda>_. ret None)
             else raise (SystemExit (''Missing issuer: '' @ issuer row))
         | Some (Downloader parser) \<Rightarrow>
             bind (lift (getlatest (files e) db (ticker row))) (\<lambda>found.
             case found of
               None \<Rightarrow> bind (emit (Log ERROR (MissingFile (ticker row)))) (\<lambda>_. ret None)
             | Some filename \<Rightarrow>
                 bind (emit (Log INFO (ParsingFile filename (issuer row)))) (\<lambda>_.
                 case parser of
                   None \<Rightarrow>
                     bind (emit (Log ERROR (ParserNotImplemented (ticker row)))) (\<lambda>_. ret None)
                 | Some parse \<Rightarrow>
                     bind (lift (parse filename)) (\<lambda>holdings.
                     bind (lift (check_holdings holdings)) (\<lambda>_.
                     ret (Some holdings)))))))"

text \<open>Lines 138 to 148: the canonical table of one position's holdings.\<close>

definition canonical :: "position \<Rightarrow> table \<Rightarrow> error + table" where
  "canonical row holdings =
     (case add_missing_columns holdings of Inl e \<Rightarrow> Inl e | Inr h1 \<Rightarrow>
      case create h1 ''etf'' (\<lambda>_. Inr (Str (ticker row))) of Inl e \<Rightarrow> Inl e | Inr h2 \<Rightarrow>
      case create h2 ''account'' (\<lambda>_. Inr (Str (account row))) of Inl e \<Rightarrow> Inl e | Inr h3 \<Rightarrow>
      case select h3 COLUMNS of Inl e \<Rightarrow> Inl e | Inr h4 \<Rightarrow>
      (let dollar_amount = quantity row * price row in
       case create h4 ''amount''
              (\<lambda>r. case attr r ''fraction'' of
                      Inl e \<Rightarrow> Inl e
                    | Inr f \<Rightarrow> py_mul f dollar_amount) of
         Inl e \<Rightarrow> Inl e
       | Inr h5 \<Rightarrow> Inr (delete h5 [''fraction''])))"

text \<open>The loop over the positions, lines 105 to 150; its value is \<open>alltables\<close>.\<close>

fun fetch_baskets :: "env \<Rightarrow> args \<Rightarrow> database \<Rightarrow> position list \<Rightarrow> table list run" where
  "fetch_baskets e a db [] = ret []"
| "fetch_baskets e a db (row # assets) =
     (if quantity row < 0 \<and> ignore_shorts a then fetch_baskets e a db assets
      else
        bind (position_holdings e a db row) (\<lambda>found.
        case found of
          None \<Rightarrow> fetch_baskets e a db assets
        | Some holdings \<Rightarrow>
            bind (lift (canonical row holdings)) (\<lambda>t.
            bind (fetch_baskets e a db assets) (\<lambda>ts. ret (t # ts)))))"

text \<open>
  Lines 96 to 151: the positions are read, ordered by issuer and ticker, and their
  canonical tables concatenated into \<open>fulltable\<close>. The check
  \<open>assets.checkall(['ticker', 'account', 'issuer', 'price', 'quantity'])\<close> that the
  positions have these five fields holds of every \<open>position\<close> record.
\<close>

definition collect :: "env \<Rightarrow> args \<Rightarrow> table run" where
  "collect e a =
     (let db = \<lparr>directory = dbdir a\<rparr> in
      bind (lift (read_portfolio e (portfolio a) (ignore_options a))) (\<lambda>assets.
      bind (fetch_baskets e a db (sort_key (\<lambda>row. (issuer row, ticker row)) assets)) (\<lambda>alltables.
      lift (concat_tables alltables))))"

text \<open>The predicate of the threshold filter: \<open>aggtable.rows[row.group].amount > threshold\<close>.\<close>

definition above_threshold :: "args \<Rightarrow> table \<Rightarrow> named_row \<Rightarrow> error + bool" where
  "above_threshold a aggtable row =
     (case attr row ''group'' of Inl e \<Rightarrow> Inl e | Inr g \<Rightarrow>
      case py_index (rows aggtable) g of Inl e \<Rightarrow> Inl e | Inr r \<Rightarrow>
      case attr (named aggtable r) ''amount'' of Inl e \<Rightarrow> Inl e | Inr c \<Rightarrow>
      case number c of Inl e \<Rightarrow> Inl e | Inr x \<Rightarrow> Inr (x > threshold a))"

text \<open>
  Lines 155 to 180. The local variable \<open>filt_annotable\<close> is bound only in the branch
  \<open>if args.threshold:\<close>; it is \<open>None\<close> here while it is unbound, and reading it then
  raises \<open>UnboundLocalError\<close>.
\<close>

definition report :: "args \<Rightarrow> table \<Rightarrow> table \<Rightarrow> table \<Rightarrow> unit run" where
  "report a fulltable aggtable annotable =
     bind (case agg_table a of Some file \<Rightarrow> emit (WriteCsv file aggtable) | None \<Rightarrow> ret ()) (\<lambda>_.
     bind (if threshold a \<noteq> 0
           then bind (lift (tbl_filter annotable (above_threshold a aggtable))) (\<lambda>t. ret (Some t))
           else ret None) (\<lambda>filt_annotable.
     bind (lift (tbl_array fulltable ''amount'')) (\<lambda>full_amounts.
     bind (emit (Log INFO (TotalFull (sum_list full_amounts)))) (\<lambda>_.
     bind (case filt_annotable of None \<Rightarrow> raise UnboundLocalError | Some t \<Rightarrow> ret t) (\<lambda>filt.
     bind (lift (tbl_array filt ''amount'')) (\<lambda>filt_amounts.
     bind (emit (Log INFO (TotalAnnotated (sum_list filt_amounts)))) (\<lambda>_.
     bind (case full_table a of Some file \<Rightarrow> emit (WriteCsv file filt) | None \<Rightarrow> ret ()) (\<lambda>_.
     bind (lift (tbl_array aggtable ''amount'')) (\<lambda>amount.
     (let tail = 0.90;
          total_amount = sum_list amount;
          cum_amount = cumsum_from 0 amount;
          headsize = length (filter (\<lambda>c. c < total_amount * tail) cum_amount)
      in bind (emit (Log INFO (Total total_amount))) (\<lambda>_.
         emit (Print (tbl_head aggtable headsize)))))))))))))"

definition main :: "env \<Rightarrow> args \<Rightarrow> unit run" where
  "main e a =
     bind (collect e a) (\<lambda>fulltable.
     bind (lift (graph_group e fulltable (debug_output a))) (\<lambda>grouped.
     report a fulltable (fst grouped) (snd grouped)))"

section \<open>Example inputs\<close>

text \<open>
  A store with two years of snapshots of one key, in which the operating system lists
  the year 2020 before the year 2019.
\<close>

definition example_store :: filesystem where
  "example_store = map_of
     [(''db/VTI'', Dir [''2020'', ''2019'']),
      (''db/VTI/2019'', Dir [''12'']),
      (''db/VTI/2019/12'', Dir [''31'']),
      (''db/VTI/2019/12/31'', Dir [''old.csv'']),
      (''db/VTI/2020'', Dir [''02'']),
      (''db/VTI/2020/02'', Dir [''03'']),
      (''db/VTI/2020/02/03'', Dir [''a.csv'', ''b.csv''])]"

text \<open>
  Holdings tables: a disclosure of three holdings whose fractions sum to 0.9, one with a
  column that is no holdings column, and one with the sentinel \<open>"-"\<close> as a cusip.
\<close>

definition good_table :: table where
  "good_table =
     \<lparr>columns = [''fraction'', ''asstype'', ''ticker''],
      rows = [[Num 0.3, Str ''Equity'', Str ''AAA''], [Num 0.3, Str ''FixedIncome'', Str ''BBB''],
              [Num 0.3, Str ''ShortTerm'', Str ''CCC'']]\<rparr>"

definition extra_table :: table where
  "extra_table =
     \<lparr>columns = [''asstype'', ''fraction'', ''ticker'', ''weight''],
      rows = [[Str ''Equity'', Num 1, Str ''XYZ'', Num 5]]\<rparr>"

definition dash_table :: table where
  "dash_table =
     \<lparr>columns = [''fraction'', ''asstype'', ''cusip''],
      rows = [[Num 1, Str ''Equity'', Str ''-'']]\<rparr>"

text \<open>
  Positions: a directly held security, a fund of a registered issuer, and a fund of an
  issuer that is not registered.
\<close>

definition direct_position :: position where
  "direct_position =
     \<lparr>issuer = [], ticker = ''XYZ'', account = ''Assets:Broker'', price = 10, quantity = 100\<rparr>"


definition unknown_position :: position where
  "unknown_position =
     \<lparr>issuer = ''Acme'', ticker = ''ACM'', account = ''Assets:Broker'', price = 10,
      quantity = 100\<rparr>"

text \<open>
  A grouping that puts every row in a group of its own: the aggregated table is the
  table itself, the annotated table adds the row number as \<open>group\<close>.
\<close>

definition example_group :: "table \<Rightarrow> string option \<Rightarrow> error + (table \<times> table)" where
  "example_group t debug =
     Inr (t, \<lparr>columns = columns t @ [''group''],
              rows = map (\<lambda>ir. snd ir @ [Num (real (fst ir))]) (enumerate 0 (rows t))\<rparr>)"

text \<open>
  An environment over the example store in which only the issuer \<open>Vanguard\<close> is
  registered; its parser returns the disclosure whose fractions sum to 0.9.
\<close>

definition example_env :: "position list \<Rightarrow> env" where
  "example_env assets =
     \<lparr>files = example_store,
      issuers_get = (\<lambda>key. if key = ''Vanguard'' then Some (Downloader (Some (\<lambda>_. Inr good_table)))
                           else None),
      read_portfolio = (\<lambda>file ignore. Inr assets),
      graph_group = example_group\<rparr>"

text \<open>The default command line, with the database directory of the example store.\<close>

definition example_args :: args where
  "example_args = (default_args ''/home/user'' ''portfolio.csv'')\<lparr>dbdir := ''db''\<rparr>"

section \<open>Properties of the snapshot store\<close>









lemma listdir_Dir: "listdir fs p = Inr names \<longleftrightarrow> fs p = Some (Dir names)"
  by (simp add: listdir_def split: option.split node.split)

lemma descend_sorted_listings:
  assumes "\<And>p names. fs p = Some (Dir names) \<Longrightarrow> sorted names"
  shows "descend fs n p = Inr r \<Longrightarrow> spec_descend fs n p = r"
proof (induction n arbitrary: p)
  case 0
  then show ?case by simp
next
  case (Suc n)
  from Suc.prems obtain names where l: "listdir fs p = Inr names"
    by (cases "listdir fs p") auto
  then have d: "fs p = Some (Dir names)" by (simp add: listdir_Dir)
  then have "sort names = names" using assms by (simp add: sorted_sort_id)
  then show ?case using Suc l d by (auto split: if_splits)
qed

text \<open>
  Where every directory is listed in sorted order, a result of \<open>getlatest\<close> is the
  result the specification words: the missing sort of the three levels is the only
  difference.
\<close>

lemma getlatest_sorted_listings:
  assumes "\<And>p names. fs p = Some (Dir names) \<Longrightarrow> sorted names"
    and "getlatest_try fs db key = Inr r"
  shows "getlatest fs db key = Inr (spec_resolve_latest fs db key)"
proof -
  from assms(2) obtain c where c: "descend fs 3 (path_join (directory db) key) = Inr c"
    by (cases "descend fs 3 (path_join (directory db) key)") (auto simp: getlatest_try_def)
  have s: "spec_descend fs 3 (path_join (directory db) key) = c"
  proof (rule descend_sorted_listings)
    show "\<And>p names. fs p = Some (Dir names) \<Longrightarrow> sorted names" by (rule assms(1))
    show "descend fs 3 (path_join (directory db) key) = Inr c" by (rule c)
  qed
  show ?thesis
  proof (cases c)
    case None
    then show ?thesis using c s by (simp add: getlatest_def getlatest_try_def spec_resolve_latest_def)
  next
    case (Some curdir)
    from assms(2) c Some obtain names where l: "listdir fs curdir = Inr names"
      by (cases "listdir fs curdir") (auto simp: getlatest_try_def)
    then have d: "fs curdir = Some (Dir names)" by (simp add: listdir_Dir)
    then show ?thesis using c s Some l
      by (simp add: getlatest_def getlatest_try_def spec_resolve_latest_def)
  qed
qed

text \<open>
  C3. \<open>getlatest\<close> (the specification's \<open>resolve_latest\<close>) takes at each of the three
  levels the entry that \<open>os.listdir\<close> returns last, without sorting; only the files of the
  day directory are sorted. In the example store the year 2020 is listed before 2019:
  \<open>getlatest\<close> returns the snapshot of 2019, while the lexicographically last year,
  month, day and file is the snapshot \<open>b.csv\<close> of 2020.
\<close>

theorem getlatest_takes_last_listed:
  "getlatest example_store \<lparr>directory = ''db''\<rparr> ''VTI''
     = Inr (Some ''db/VTI/2019/12/31/old.csv'')
   \<and> spec_resolve_latest example_store \<lparr>directory = ''db''\<rparr> ''VTI''
     = Some ''db/VTI/2020/02/03/b.csv''"
proof
  show "getlatest example_store \<lparr>directory = ''db''\<rparr> ''VTI''
     = Inr (Some ''db/VTI/2019/12/31/old.csv'')"
    by (simp add: getlatest_def getlatest_try_def listdir_def example_store_def
        numeral_3_eq_3 path_join_def)
  show "spec_resolve_latest example_store \<lparr>directory = ''db''\<rparr> ''VTI''
     = Some ''db/VTI/2020/02/03/b.csv''"
    by (simp add: spec_resolve_latest_def example_store_def numeral_3_eq_3 path_join_def)
qed

section \<open>Properties of holdings tables\<close>

lemma sequence_map_Inr: "sequence (map (\<lambda>x. Inr (f x)) xs) = Inr (map f xs)"
  by (induction xs) simp_all

lemma create_const:
  "create tbl c (\<lambda>_. Inr v) = Inr \<lparr>columns = columns tbl @ [c], rows = map (\<lambda>r. r @ [v]) (rows tbl)\<rparr>"
  by (simp add: create_def sequence_map_Inr)

lemma add_missing_loop_closed:
  "distinct cs \<Longrightarrow>
   add_missing_loop cs tbl =
     Inr \<lparr>columns = columns tbl @ filter (\<lambda>c. c \<notin> set (columns tbl)) cs,
          rows = map (\<lambda>r. r @ replicate (length (filter (\<lambda>c. c \<notin> set (columns tbl)) cs)) (Str []))
                     (rows tbl)\<rparr>"
proof (induction cs arbitrary: tbl)
  case Nil
  then show ?case by simp
next
  case (Cons c cs)
  from Cons.prems have d: "distinct cs" and nc: "c \<notin> set cs" by simp_all
  show ?case
  proof (cases "c \<in> set (columns tbl)")
    case True
    then show ?thesis using Cons.IH [OF d, of tbl] by simp
  next
    case False
    let ?t = "\<lparr>columns = columns tbl @ [c], rows = map (\<lambda>r. r @ [Str []]) (rows tbl)\<rparr>"
    have f: "filter (\<lambda>x. x \<noteq> c \<and> x \<notin> set (columns tbl)) cs
               = filter (\<lambda>x. x \<notin> set (columns tbl)) cs"
      using nc by (auto intro: filter_cong)
    have "add_missing_loop (c # cs) tbl = add_missing_loop cs ?t"
      using False by (simp add: create_const)
    also have "\<dots> = Inr \<lparr>columns = columns ?t @ filter (\<lambda>x. x \<notin> set (columns ?t)) cs,
          rows = map (\<lambda>r. r @ replicate (length (filter (\<lambda>x. x \<notin> set (columns ?t)) cs)) (Str []))
                     (rows ?t)\<rparr>"
      by (rule Cons.IH [OF d])
    finally show ?thesis using False by (simp add: f)
  qed
qed

lemma distinct_IDCOLUMNS: "distinct IDCOLUMNS"
  by (simp add: IDCOLUMNS_def)

lemma add_missing_columns_closed:
  "add_missing_columns tbl =
     Inr \<lparr>columns = columns tbl @ filter (\<lambda>c. c \<notin> set (columns tbl)) IDCOLUMNS,
          rows = map (\<lambda>r. r @ replicate (length (filter (\<lambda>c. c \<notin> set (columns tbl)) IDCOLUMNS)) (Str []))
                     (rows tbl)\<rparr>"
  unfolding add_missing_columns_def by (rule add_missing_loop_closed [OF distinct_IDCOLUMNS])

lemma index_of_None: "index_of cols c = None \<longleftrightarrow> c \<notin> set cols"
  by (induction cols) auto

lemma index_of_Some: "index_of cols c = Some i \<Longrightarrow> i < length cols \<and> cols ! i = c"
  by (induction cols arbitrary: i) (auto split: if_splits)

lemma index_of_append:
  "index_of (xs @ ys) c =
     (case index_of xs c of
        Some i \<Rightarrow> Some i
      | None \<Rightarrow> (case index_of ys c of None \<Rightarrow> None | Some j \<Rightarrow> Some (length xs + j)))"
  by (induction xs) (auto split: option.splits)

lemma check_dash_fails:
  "check_dash cs T \<noteq> Inr () \<longleftrightarrow>
     list_ex (\<lambda>c. c \<in> set (columns T) \<and> Str ''-'' \<in> set (tbl_values T c)) cs"
  by (induction cs) auto

lemma check_holdings_cases:
  "check_holdings T \<noteq> Inr () \<longleftrightarrow>
     \<not> set (columns T) \<subseteq> {''asstype'', ''fraction''} \<union> set IDCOLUMNS
     \<or> \<not> {''asstype'', ''fraction''} \<subseteq> set (columns T)
     \<or> set IDCOLUMNS \<inter> set (columns T) = {}
     \<or> \<not> list_all (\<lambda>cls. cls \<in> ASSTYPES) (tbl_values T ''asstype'')
     \<or> check_dash IDCOLUMNS T \<noteq> Inr ()"
  unfolding check_holdings_def Let_def by auto

lemma no_id_column: "set IDCOLUMNS \<inter> set cols = {} \<longleftrightarrow> list_all (\<lambda>c. c \<notin> set cols) IDCOLUMNS"
  by (auto simp: list_all_iff)

lemma outside_asstypes:
  "\<not> list_all (\<lambda>cls. cls \<in> ASSTYPES) vs \<longleftrightarrow> list_ex (\<lambda>v. v \<notin> ASSTYPES) vs"
  by (auto simp: list_all_iff list_ex_iff)

text \<open>
  C2, as amended. \<open>check_holdings\<close> (the specification's \<open>validate\<close>) fails if and only
  if the table has a column that is neither \<open>asstype\<close>, \<open>fraction\<close> nor an identifier
  column, or one of the four conditions of the specification holds. It only reads the
  table: its value is the outcome alone.
\<close>

theorem check_holdings_fails_iff:
  "check_holdings T \<noteq> Inr () \<longleftrightarrow>
     \<not> set (columns T) \<subseteq> {''asstype'', ''fraction''} \<union> set IDCOLUMNS \<or> spec_validate_fails T"
  unfolding check_holdings_cases spec_validate_fails_def no_id_column outside_asstypes
    check_dash_fails
  by auto

text \<open>
  C2, as stated, fails: a table with the required columns, an identifier column, known
  asset classes, no \<open>"-"\<close> and one more column \<open>weight\<close> is rejected by the first
  assertion of \<open>check_holdings\<close>.
\<close>

theorem check_holdings_extra_column:
  "check_holdings extra_table = Inl ExtraColumns \<and> \<not> spec_validate_fails extra_table"
  by (simp add: check_holdings_def spec_validate_fails_def extra_table_def IDCOLUMNS_def
      ASSTYPES_def tbl_values_def cell_at_def)

theorem check_holdings_fails_iff_witness:
  "check_holdings dash_table \<noteq> Inr () \<and> check_holdings good_table = Inr ()"
proof -
  have "spec_validate_fails dash_table"
    by (simp add: spec_validate_fails_def dash_table_def IDCOLUMNS_def
      ASSTYPES_def tbl_values_def cell_at_def)
  then have a: "check_holdings dash_table \<noteq> Inr ()"
    using check_holdings_fails_iff [of dash_table] by blast
  have "\<not> spec_validate_fails good_table"
    by (simp add: spec_validate_fails_def good_table_def IDCOLUMNS_def
      ASSTYPES_def tbl_values_def cell_at_def)
  moreover have "set (columns good_table) \<subseteq> {''asstype'', ''fraction''} \<union> set IDCOLUMNS"
    by (simp add: good_table_def IDCOLUMNS_def)
  ultimately have "check_holdings good_table = Inr ()"
    using check_holdings_fails_iff [of good_table] by blast
  with a show ?thesis by blast
qed

lemma add_missing_columns_covers:
  "add_missing_columns T = Inr T' \<Longrightarrow> set IDCOLUMNS \<subseteq> set (columns T')"
  unfolding add_missing_columns_closed by auto

lemma add_missing_columns_again:
  assumes "add_missing_columns T = Inr T'"
  shows "add_missing_columns T' = Inr T'"
proof -
  have "set IDCOLUMNS \<subseteq> set (columns T')"
    using assms by (rule add_missing_columns_covers)
  then have "filter (\<lambda>c. c \<notin> set (columns T')) IDCOLUMNS = []"
    by (auto simp: filter_empty_conv)
  then show ?thesis
    unfolding add_missing_columns_closed [of T'] by simp
qed

lemma cell_at_padded_old:
  assumes "length r = length cols" "c \<in> set cols"
  shows "cell_at (cols @ extra) (r @ pad) c = cell_at cols r c"
proof -
  from assms(2) obtain i where i: "index_of cols c = Some i"
    using index_of_None [of cols c] by (cases "index_of cols c") auto
  then have "i < length cols" using index_of_Some by blast
  then show ?thesis using i assms(1)
    by (simp add: cell_at_def index_of_append nth_append)
qed

lemma cell_at_padded_new:
  assumes "length r = length cols" "c \<notin> set cols" "c \<in> set extra"
  shows "cell_at (cols @ extra) (r @ replicate (length extra) v) c = Some v"
proof -
  have n: "index_of cols c = None" using assms(2) by (simp add: index_of_None)
  from assms(3) obtain j where j: "index_of extra c = Some j"
    using index_of_None [of extra c] by (cases "index_of extra c") auto
  then have "j < length extra" using index_of_Some by blast
  then show ?thesis using n j assms(1)
    by (simp add: cell_at_def index_of_append nth_append)
qed

lemma concat_singletons: "concat (map (\<lambda>x. [f x]) xs) = map f xs"
  by (induction xs) simp_all

lemma tbl_values_padded_old:
  assumes "wf_table T" "c \<in> set (columns T)"
  shows "tbl_values \<lparr>columns = columns T @ extra, rows = map (\<lambda>r. r @ pad) (rows T)\<rparr> c
         = tbl_values T c"
proof -
  have "\<And>r. r \<in> set (rows T) \<Longrightarrow>
          cell_at (columns T @ extra) (r @ pad) c = cell_at (columns T) r c"
    using assms by (simp add: wf_table_def list_all_iff cell_at_padded_old)
  then have m: "map (\<lambda>r. case cell_at (columns T @ extra) (r @ pad) c of None \<Rightarrow> [] | Some v \<Rightarrow> [v])
               (rows T)
           = map (\<lambda>r. case cell_at (columns T) r c of None \<Rightarrow> [] | Some v \<Rightarrow> [v]) (rows T)"
    by (intro map_cong) simp_all
  have "tbl_values \<lparr>columns = columns T @ extra, rows = map (\<lambda>r. r @ pad) (rows T)\<rparr> c
      = concat (map (\<lambda>r. case cell_at (columns T @ extra) (r @ pad) c of
                             None \<Rightarrow> [] | Some v \<Rightarrow> [v]) (rows T))"
    by (simp add: tbl_values_def o_def)
  also have "\<dots> = concat (map (\<lambda>r. case cell_at (columns T) r c of
                                   None \<Rightarrow> [] | Some v \<Rightarrow> [v]) (rows T))"
    by (simp only: m)
  also have "\<dots> = tbl_values T c"
    by (simp add: tbl_values_def)
  finally show ?thesis .
qed

lemma tbl_values_padded_new:
  assumes "wf_table T" "c \<notin> set (columns T)" "c \<in> set extra"
  shows "tbl_values \<lparr>columns = columns T @ extra,
                     rows = map (\<lambda>r. r @ replicate (length extra) v) (rows T)\<rparr> c
         = replicate (length (rows T)) v"
proof -
  have "\<And>r. r \<in> set (rows T) \<Longrightarrow>
          cell_at (columns T @ extra) (r @ replicate (length extra) v) c = Some v"
    using assms by (simp add: wf_table_def list_all_iff cell_at_padded_new)
  then have m: "map (\<lambda>r. case cell_at (columns T @ extra) (r @ replicate (length extra) v) c of
                        None \<Rightarrow> [] | Some v \<Rightarrow> [v]) (rows T)
           = map (\<lambda>r. [v]) (rows T)"
    by (intro map_cong) simp_all
  have "tbl_values \<lparr>columns = columns T @ extra,
                     rows = map (\<lambda>r. r @ replicate (length extra) v) (rows T)\<rparr> c
      = concat (map (\<lambda>r. case cell_at (columns T @ extra) (r @ replicate (length extra) v) c of
                             None \<Rightarrow> [] | Some v \<Rightarrow> [v]) (rows T))"
    by (simp add: tbl_values_def o_def)
  also have "\<dots> = concat (map (\<lambda>r. [v]) (rows T))"
    by (simp only: m)
  also have "\<dots> = replicate (length (rows T)) v"
    by (simp add: concat_singletons map_replicate_const)
  finally show ?thesis .
qed

text \<open>
  C9. \<open>add_missing_columns\<close> (the specification's \<open>fill_missing_identifiers\<close>) never
  fails; it appends the identifier columns the table lacks, in the order of
  \<open>IDCOLUMNS\<close>, and applying it to its result changes nothing. On a well-formed table the
  cells of every column it had are kept and the cells of every appended column are the
  empty string.
\<close>

theorem add_missing_columns_idempotent:
  "\<exists>T'. add_missing_columns T = Inr T'
      \<and> add_missing_columns T' = Inr T'
      \<and> columns T' = columns T @ filter (\<lambda>c. c \<notin> set (columns T)) IDCOLUMNS
      \<and> length (rows T') = length (rows T)
      \<and> (wf_table T \<longrightarrow>
             wf_table T'
           \<and> (\<forall>c \<in> set (columns T). tbl_values T' c = tbl_values T c)
           \<and> (\<forall>c \<in> set IDCOLUMNS. c \<notin> set (columns T) \<longrightarrow>
                  tbl_values T' c = replicate (length (rows T)) (Str [])))"
proof -
  let ?extra = "filter (\<lambda>c. c \<notin> set (columns T)) IDCOLUMNS"
  let ?T = "\<lparr>columns = columns T @ ?extra,
             rows = map (\<lambda>r. r @ replicate (length ?extra) (Str [])) (rows T)\<rparr>"
  have c: "add_missing_columns T = Inr ?T" by (rule add_missing_columns_closed)
  have i: "add_missing_columns ?T = Inr ?T" using c by (rule add_missing_columns_again)
  have w: "wf_table ?T" if "wf_table T"
    using that by (simp add: wf_table_def list_all_iff)
  have o: "tbl_values ?T c = tbl_values T c" if "wf_table T" "c \<in> set (columns T)" for c
    using that by (rule tbl_values_padded_old)
  have n: "tbl_values ?T c = replicate (length (rows T)) (Str [])"
    if "wf_table T" "c \<in> set IDCOLUMNS" "c \<notin> set (columns T)" for c
    using that by (intro tbl_values_padded_new) simp_all
  show ?thesis
    using c i w o n by (intro exI [of _ ?T]) simp
qed

theorem add_missing_columns_idempotent_witness:
  "add_missing_columns good_table =
     Inr \<lparr>columns = [''fraction'', ''asstype'', ''ticker'', ''name'', ''sedol'', ''isin'', ''cusip''],
          rows = [[Num 0.3, Str ''Equity'', Str ''AAA'', Str [], Str [], Str [], Str []],
                  [Num 0.3, Str ''FixedIncome'', Str ''BBB'', Str [], Str [], Str [], Str []],
                  [Num 0.3, Str ''ShortTerm'', Str ''CCC'', Str [], Str [], Str [], Str []]]\<rparr>
   \<and> add_missing_columns
       \<lparr>columns = [''fraction'', ''asstype'', ''ticker'', ''name'', ''sedol'', ''isin'', ''cusip''],
        rows = [[Num 0.3, Str ''Equity'', Str ''AAA'', Str [], Str [], Str [], Str []],
                [Num 0.3, Str ''FixedIncome'', Str ''BBB'', Str [], Str [], Str [], Str []],
                [Num 0.3, Str ''ShortTerm'', Str ''CCC'', Str [], Str [], Str [], Str []]]\<rparr> =
     Inr \<lparr>columns = [''fraction'', ''asstype'', ''ticker'', ''name'', ''sedol'', ''isin'', ''cusip''],
          rows = [[Num 0.3, Str ''Equity'', Str ''AAA'', Str [], Str [], Str [], Str []],
                  [Num 0.3, Str ''FixedIncome'', Str ''BBB'', Str [], Str [], Str [], Str []],
                  [Num 0.3, Str ''ShortTerm'', Str ''CCC'', Str [], Str [], Str [], Str []]]\<rparr>
   \<and> tbl_values
       \<lparr>columns = [''fraction'', ''asstype'', ''ticker'', ''name'', ''sedol'', ''isin'', ''cusip''],
        rows = [[Num 0.3, Str ''Equity'', Str ''AAA'', Str [], Str [], Str [], Str []],
                [Num 0.3, Str ''FixedIncome'', Str ''BBB'', Str [], Str [], Str [], Str []],
                [Num 0.3, Str ''ShortTerm'', Str ''CCC'', Str [], Str [], Str [], Str []]]\<rparr> ''cusip''
     = [Str [], Str [], Str []]"
proof -
  let ?X = "\<lparr>columns = [''fraction'', ''asstype'', ''ticker'', ''name'', ''sedol'', ''isin'', ''cusip''],
        rows = [[Num 0.3, Str ''Equity'', Str ''AAA'', Str [], Str [], Str [], Str []],
                [Num 0.3, Str ''FixedIncome'', Str ''BBB'', Str [], Str [], Str [], Str []],
                [Num 0.3, Str ''ShortTerm'', Str ''CCC'', Str [], Str [], Str [], Str []]]\<rparr>"
  have e: "add_missing_columns good_table = Inr ?X"
    by (simp add: add_missing_columns_def IDCOLUMNS_def good_table_def create_def)
  have w: "wf_table good_table"
    by (simp add: wf_table_def good_table_def)
  have c: "''cusip'' \<in> set IDCOLUMNS" "''cusip'' \<notin> set (columns good_table)"
    by (simp_all add: IDCOLUMNS_def good_table_def)
  have l: "length (rows good_table) = 3"
    by (simp add: good_table_def)
  from add_missing_columns_idempotent [of good_table] obtain T' where
    t: "add_missing_columns good_table = Inr T'" "add_missing_columns T' = Inr T'"
    and v: "wf_table good_table \<longrightarrow>
              wf_table T'
            \<and> (\<forall>c \<in> set (columns good_table). tbl_values T' c = tbl_values good_table c)
            \<and> (\<forall>c \<in> set IDCOLUMNS. c \<notin> set (columns good_table) \<longrightarrow>
                  tbl_values T' c = replicate (length (rows good_table)) (Str []))"
    by blast
  from t(1) e have x: "T' = ?X" by simp
  from v w c have "tbl_values T' ''cusip'' = replicate (length (rows good_table)) (Str [])"
    by blast
  then have "tbl_values ?X ''cusip'' = [Str [], Str [], Str []]"
    unfolding x l by (simp add: numeral_3_eq_3)
  with e t(2) show ?thesis unfolding x by blast
qed

section \<open>Properties of the normalisation of fractions\<close>

lemma bind_value: "bind (l, Inr v) f = (l @ fst (f v), snd (f v))"
  by (simp add: bind_def)

lemma bind_error: "bind (l, Inl e) f = (l, Inl e)"
  by (simp add: bind_def)

lemmas run_simps = bind_value bind_error lift_def ret_def raise_def emit_def














section \<open>Properties of the pipeline\<close>

lemma canonical_direct:
  "canonical row \<lparr>columns = [''fraction'', ''asstype'', ''ticker''],
                  rows = [[Num 1, Str ''Equity'', Str (ticker row)]]\<rparr> =
     Inr \<lparr>columns = [''etf'', ''account'', ''asstype'', ''name'', ''ticker'', ''sedol'', ''isin'',
                     ''cusip'', ''amount''],
          rows = [[Str (ticker row), Str (account row), Str ''Equity'', Str [], Str (ticker row),
                   Str [], Str [], Str [], Num (quantity row * price row)]]\<rparr>"
  by (simp add: canonical_def add_missing_columns_def IDCOLUMNS_def COLUMNS_def create_def
      select_def select_row_def cell_at_def attr_def named_def py_mul_def delete_def delete_row_def)

lemma fetch_baskets_direct:
  assumes "issuer row = []" and "\<not> (quantity row < 0 \<and> ignore_shorts a)"
  shows "fetch_baskets e a db [row] =
     ([], Inr [\<lparr>columns = [''etf'', ''account'', ''asstype'', ''name'', ''ticker'', ''sedol'', ''isin'',
                           ''cusip'', ''amount''],
                rows = [[Str (ticker row), Str (account row), Str ''Equity'', Str [],
                         Str (ticker row), Str [], Str [], Str [],
                         Num (quantity row * price row)]]\<rparr>])"
proof -
  have "position_holdings e a db row =
             ([], Inr (Some \<lparr>columns = [''fraction'', ''asstype'', ''ticker''],
                             rows = [[Num 1, Str ''Equity'', Str (ticker row)]]\<rparr>))"
    using assms(1) by (simp add: position_holdings_def ret_def)
  then show ?thesis
    using assms(2) by (auto simp add: canonical_direct run_simps)
qed

lemma sort_key_single: "sort_key f [x] = [x]"
  by simp

text \<open>
  C7. When the portfolio is the single position with an empty issuer, ticker \<open>XYZ\<close>,
  quantity 100 and price 10, the holdings of the position are the synthesized table with
  the one row of fraction 1, asset class \<open>Equity\<close> and ticker \<open>XYZ\<close>; the pipeline logs
  nothing and its full table has exactly one row: the amount is 1000, the asset class
  \<open>Equity\<close> and the ticker \<open>XYZ\<close>; the other identifiers are empty, and \<open>etf\<close> and
  \<open>account\<close> are those of the position.
\<close>

theorem direct_position_table:
  assumes "read_portfolio e (portfolio a) (ignore_options a) =
             Inr [\<lparr>issuer = [], ticker = ''XYZ'', account = acct, price = 10, quantity = 100\<rparr>]"
  shows "position_holdings e a db
           \<lparr>issuer = [], ticker = ''XYZ'', account = acct, price = 10, quantity = 100\<rparr> =
           ([], Inr (Some \<lparr>columns = [''fraction'', ''asstype'', ''ticker''],
                           rows = [[Num 1, Str ''Equity'', Str ''XYZ'']]\<rparr>))
       \<and> collect e a =
           ([], Inr \<lparr>columns = [''etf'', ''account'', ''asstype'', ''name'', ''ticker'', ''sedol'',
                                ''isin'', ''cusip'', ''amount''],
                     rows = [[Str ''XYZ'', Str acct, Str ''Equity'', Str [], Str ''XYZ'',
                              Str [], Str [], Str [], Num 1000]]\<rparr>)"
proof
  let ?row = "\<lparr>issuer = [], ticker = ''XYZ'', account = acct, price = 10, quantity = 100\<rparr>"
  show "position_holdings e a db ?row =
           ([], Inr (Some \<lparr>columns = [''fraction'', ''asstype'', ''ticker''],
                           rows = [[Num 1, Str ''Equity'', Str ''XYZ'']]\<rparr>))"
    by (simp add: position_holdings_def ret_def)
  have f: "fetch_baskets e a \<lparr>directory = dbdir a\<rparr> [?row] =
     ([], Inr [\<lparr>columns = [''etf'', ''account'', ''asstype'', ''name'', ''ticker'', ''sedol'', ''isin'',
                     ''cusip'', ''amount''],
          rows = [[Str ''XYZ'', Str acct, Str ''Equity'', Str [], Str ''XYZ'',
                   Str [], Str [], Str [], Num 1000]]\<rparr>])"
    using fetch_baskets_direct [of ?row a e "\<lparr>directory = dbdir a\<rparr>"] by simp
  show "collect e a =
           ([], Inr \<lparr>columns = [''etf'', ''account'', ''asstype'', ''name'', ''ticker'', ''sedol'',
                                ''isin'', ''cusip'', ''amount''],
                     rows = [[Str ''XYZ'', Str acct, Str ''Equity'', Str [], Str ''XYZ'',
                              Str [], Str [], Str [], Num 1000]]\<rparr>)"
    by (simp add: collect_def assms f concat_tables_def run_simps del: fetch_baskets.simps)
qed

theorem direct_position_table_witness:
  "collect (example_env [direct_position]) example_args =
     ([], Inr \<lparr>columns = [''etf'', ''account'', ''asstype'', ''name'', ''ticker'', ''sedol'',
                          ''isin'', ''cusip'', ''amount''],
               rows = [[Str ''XYZ'', Str ''Assets:Broker'', Str ''Equity'', Str [], Str ''XYZ'',
                        Str [], Str [], Str [], Num 1000]]\<rparr>)"
proof -
  have "read_portfolio (example_env [direct_position]) (portfolio example_args)
          (ignore_options example_args) =
        Inr [\<lparr>issuer = [], ticker = ''XYZ'', account = ''Assets:Broker'', price = 10,
              quantity = 100\<rparr>]"
    by (simp add: example_env_def direct_position_def)
  from direct_position_table [OF this, of "\<lparr>directory = ''db''\<rparr>"] show ?thesis
    by blast
qed

text \<open>
  C4, as amended. A position with an issuer key for which \<open>issuers.get\<close> returns
  \<open>None\<close>, and which is not a short position left out by \<open>--ignore-shorts\<close>, ends
  the run with \<open>SystemExit\<close> and the message \<open>Missing issuer: ...\<close> unless
  \<open>--ignore-missing-issuer\<close> is given; with that flag the error is logged, the position
  skipped and the loop continues with the remaining positions. The flag is off by
  default.
\<close>

theorem missing_issuer_policy:
  assumes "issuer row \<noteq> []" and "issuers_get e (issuer row) = None"
    and "\<not> (quantity row < 0 \<and> ignore_shorts a)"
  shows "fetch_baskets e a db (row # assets) =
           (if ignore_missing_issuer a
            then (Log ERROR (MissingIssuer (issuer row)) # fst (fetch_baskets e a db assets),
                  snd (fetch_baskets e a db assets))
            else ([], Inl (SystemExit (''Missing issuer: '' @ issuer row))))
         \<and> \<not> ignore_missing_issuer (default_args home file)"
proof -
  have "position_holdings e a db row =
          (if ignore_missing_issuer a then ([Log ERROR (MissingIssuer (issuer row))], Inr None)
           else ([], Inl (SystemExit (''Missing issuer: '' @ issuer row))))"
    using assms(1,2) by (simp add: position_holdings_def run_simps)
  then show ?thesis
    using assms(3) by (auto simp add: run_simps default_args_def)
qed

text \<open>
  C4, as stated, fails: with the default command line, a portfolio of a directly held
  security and a fund of an unregistered issuer does not skip the fund and go on; the
  whole run ends with \<open>SystemExit\<close>.
\<close>

theorem missing_issuer_aborts_by_default:
  "main (example_env [direct_position, unknown_position])
        (default_args ''/home/user'' ''portfolio.csv'')
     = ([], Inl (SystemExit ''Missing issuer: Acme''))"
proof -
  let ?e = "example_env [direct_position, unknown_position]"
  let ?a = "default_args ''/home/user'' ''portfolio.csv''"
  let ?db = "\<lparr>directory = dbdir ?a\<rparr>"
  have s: "sort_key (\<lambda>row. (issuer row, ticker row)) [direct_position, unknown_position]
             = [direct_position, unknown_position]"
    by (simp add: direct_position_def unknown_position_def)
  have h: "position_holdings ?e ?a ?db direct_position =
             ([], Inr (Some \<lparr>columns = [''fraction'', ''asstype'', ''ticker''],
                             rows = [[Num 1, Str ''Equity'', Str (ticker direct_position)]]\<rparr>))"
    by (simp add: position_holdings_def ret_def direct_position_def)
  have u: "position_holdings ?e ?a ?db unknown_position =
             ([], Inl (SystemExit ''Missing issuer: Acme''))"
    by (simp add: position_holdings_def run_simps unknown_position_def example_env_def
        default_args_def)
  have q: "\<not> quantity direct_position < 0" "\<not> quantity unknown_position < 0"
    by (simp_all add: direct_position_def unknown_position_def)
  have f: "fetch_baskets ?e ?a ?db [direct_position, unknown_position] =
             ([], Inl (SystemExit ''Missing issuer: Acme''))"
    by (simp add: q h u canonical_direct run_simps)
  have r: "read_portfolio ?e (portfolio ?a) (ignore_options ?a)
             = Inr [direct_position, unknown_position]"
    by (simp add: example_env_def)
  have "collect ?e ?a =
          bind (fetch_baskets ?e ?a ?db
                  (sort_key (\<lambda>row. (issuer row, ticker row)) [direct_position, unknown_position]))
               (\<lambda>alltables. lift (concat_tables alltables))"
    by (simp add: collect_def r bind_value lift_def del: fetch_baskets.simps sort_key_simps)
  also have "\<dots> = ([], Inl (SystemExit ''Missing issuer: Acme''))"
    unfolding s f by (simp add: run_simps)
  finally have "collect ?e ?a = ([], Inl (SystemExit ''Missing issuer: Acme''))" .
  then show ?thesis
    by (simp add: main_def run_simps)
qed

theorem missing_issuer_policy_witness:
  "fetch_baskets (example_env []) example_args \<lparr>directory = ''db''\<rparr> [unknown_position]
     = ([], Inl (SystemExit ''Missing issuer: Acme''))
   \<and> fetch_baskets (example_env []) (example_args\<lparr>ignore_missing_issuer := True\<rparr>)
        \<lparr>directory = ''db''\<rparr> [unknown_position]
     = ([Log ERROR (MissingIssuer ''Acme'')], Inr [])"
proof -
  let ?e = "example_env []"
  have i: "issuer unknown_position \<noteq> []" "issuer unknown_position = ''Acme''"
    by (simp_all add: unknown_position_def)
  have g: "issuers_get ?e (issuer unknown_position) = None"
    by (simp add: example_env_def unknown_position_def)
  have q: "\<not> (quantity unknown_position < 0 \<and> ignore_shorts a)" for a
    by (simp add: unknown_position_def)
  have "fetch_baskets ?e example_args \<lparr>directory = ''db''\<rparr> [unknown_position]
     = ([], Inl (SystemExit ''Missing issuer: Acme''))"
    using missing_issuer_policy [OF i(1) g q, of example_args "\<lparr>directory = ''db''\<rparr>" "[]"]
    by (simp add: i(2) example_args_def default_args_def)
  moreover
  have "fetch_baskets ?e (example_args\<lparr>ignore_missing_issuer := True\<rparr>)
        \<lparr>directory = ''db''\<rparr> [unknown_position]
     = ([Log ERROR (MissingIssuer ''Acme'')], Inr [])"
    using missing_issuer_policy [OF i(1) g q,
        of "example_args\<lparr>ignore_missing_issuer := True\<rparr>" "\<lparr>directory = ''db''\<rparr>" "[]"]
    by (simp add: i(2) ret_def)
  ultimately show ?thesis by blast
qed

section \<open>Properties of the report\<close>

lemma snd_bind:
  "snd (bind m f) = (case snd m of Inl e \<Rightarrow> Inl e | Inr v \<Rightarrow> snd (f v))"
  by (simp add: bind_def split: sum.split)

lemma report_unbound:
  assumes "threshold a = 0"
  shows "snd (report a fulltable aggtable annotable) =
           (case tbl_array fulltable ''amount'' of
              Inl e \<Rightarrow> Inl e
            | Inr full_amounts \<Rightarrow> Inl UnboundLocalError)"
  using assms
  by (simp add: report_def snd_bind run_simps split: option.split sum.split)

text \<open>
  C5. With no threshold on the command line (\<open>threshold = 0\<close>, the default) the
  branch that binds \<open>filt_annotable\<close> is not taken, and the report reads the variable
  all the same: no run returns normally, and a run that gets as far as the totals of the
  full table ends with \<open>UnboundLocalError\<close>.
\<close>

theorem main_default_threshold_fails:
  assumes "threshold a = 0"
  shows "snd (main e a) \<noteq> Inr ()
       \<and> (\<forall>fulltable aggtable annotable full_amounts.
            tbl_array fulltable ''amount'' = Inr full_amounts \<longrightarrow>
            snd (report a fulltable aggtable annotable) = Inl UnboundLocalError)"
proof
  have "snd (report a fulltable aggtable annotable) \<noteq> Inr ()" for fulltable aggtable annotable
    using report_unbound [OF assms, of fulltable aggtable annotable]
    by (simp split: sum.splits)
  then show "snd (main e a) \<noteq> Inr ()"
    by (simp add: main_def snd_bind lift_def split: sum.split)
  show "\<forall>fulltable aggtable annotable full_amounts.
            tbl_array fulltable ''amount'' = Inr full_amounts \<longrightarrow>
            snd (report a fulltable aggtable annotable) = Inl UnboundLocalError"
    using report_unbound [OF assms] by simp
qed

theorem main_default_threshold_fails_witness:
  "threshold (default_args ''/home/user'' ''portfolio.csv'') = 0
   \<and> snd (main (example_env [direct_position]) (default_args ''/home/user'' ''portfolio.csv''))
       \<noteq> Inr ()
   \<and> main (example_env [direct_position]) (default_args ''/home/user'' ''portfolio.csv'')
       = ([Log INFO (TotalFull 1000)], Inl UnboundLocalError)"
proof -
  let ?e = "example_env [direct_position]"
  let ?a = "default_args ''/home/user'' ''portfolio.csv''"
  let ?T = "\<lparr>columns = [''etf'', ''account'', ''asstype'', ''name'', ''ticker'', ''sedol'', ''isin'',
                           ''cusip'', ''amount''],
                rows = [[Str ''XYZ'', Str ''Assets:Broker'', Str ''Equity'', Str [],
                         Str ''XYZ'', Str [], Str [], Str [], Num 1000]]\<rparr>"
  have t: "threshold ?a = 0" by (simp add: default_args_def)
  have f: "fetch_baskets ?e ?a \<lparr>directory = dbdir ?a\<rparr> [direct_position] = ([], Inr [?T])"
    using fetch_baskets_direct [of direct_position ?a ?e "\<lparr>directory = dbdir ?a\<rparr>"]
    by (simp add: direct_position_def)
  have r: "read_portfolio ?e (portfolio ?a) (ignore_options ?a) = Inr [direct_position]"
    by (simp add: example_env_def)
  have c: "collect ?e ?a = ([], Inr ?T)"
    by (simp add: collect_def r f concat_tables_def run_simps del: fetch_baskets.simps)
  have g: "graph_group ?e ?T (debug_output ?a) =
             Inr (?T, \<lparr>columns = columns ?T @ [''group''],
                       rows = [[Str ''XYZ'', Str ''Assets:Broker'', Str ''Equity'', Str [],
                                Str ''XYZ'', Str [], Str [], Str [], Num 1000, Num 0]]\<rparr>)"
    by (simp add: example_env_def example_group_def enumerate_eq_zip)
  have y: "tbl_array ?T ''amount'' = Inr [1000]"
    by (simp add: tbl_array_def tbl_values_def cell_at_def number_def)
  have o: "agg_table ?a = None" "full_table ?a = None"
    by (simp_all add: default_args_def)
  have p: "report ?a ?T ?T annotable = ([Log INFO (TotalFull 1000)], Inl UnboundLocalError)"
    for annotable
    by (simp add: report_def t o y run_simps)
  have m: "main ?e ?a = ([Log INFO (TotalFull 1000)], Inl UnboundLocalError)"
    by (simp add: main_def c g p run_simps)
  from main_default_threshold_fails [OF t, of ?e] have "snd (main ?e ?a) \<noteq> Inr ()"
    by blast
  with t m show ?thesis by blast
qed

section \<open>Properties of the conversion to amounts\<close>

















end
